theory Spec2Isabelle
  imports Main
begin

section \<open>The type language of \<open>src/router.ts\<close>\<close>

text \<open>
  \<open>router.ts\<close> holds declarations only: three interfaces and the type \<open>AppRouter\<close>.
  The declarations are embedded as terms of the datatype \<open>ty\<close>, one constructor for each
  type former the file uses: the primitives \<open>string\<close>, \<open>number\<close>, \<open>boolean\<close>, \<open>null\<close>,
  the class \<open>Date\<close>, a union \<open>A | B\<close>, an array \<open>A[]\<close>, an object type with its
  properties in the order of the source, a function type \<open>(input: A) => B\<close> and
  \<open>Promise<A>\<close>. A property \<open>name?: A\<close> is \<open>Prop name True A\<close>, a property
  \<open>name: A\<close> is \<open>Prop name False A\<close>.
\<close>

datatype ty =
    TString
  | TNumber
  | TBoolean
  | TNull
  | TDate
  | TUnion ty ty
  | TArray ty
  | TObject "prop_decl list"
  | TFun "ty list" ty
  | TPromise ty
and prop_decl = Prop (pname: string) (poptional: bool) (ptype: ty)

text \<open>
  The values that cross the contract. The payload of a number and of a date plays no part
  in any shape; both are kept as integers. An object is its list of properties, looked
  up by name.
\<close>

datatype val =
    VUndefined
  | VNull
  | VBool bool
  | VNumber int
  | VString string
  | VDate int
  | VArray "val list"
  | VObject "(string \<times> val) list"

section \<open>Entity types\<close>

text \<open>\<open>export interface Space\<close>, lines 8 to 18.\<close>

definition Space :: ty where
  "Space = TObject
    [ Prop ''id'' False TString,
      Prop ''userId'' False TString,
      Prop ''name'' False TString,
      Prop ''icon'' True (TUnion TString TNull),
      Prop ''color'' True (TUnion TString TNull),
      Prop ''order'' False TNumber,
      Prop ''isArchived'' False TBoolean,
      Prop ''createdAt'' False (TUnion TString TDate),
      Prop ''updatedAt'' False (TUnion TString TDate) ]"

text \<open>\<open>export interface Group\<close>, lines 20 to 30.\<close>

definition Group :: ty where
  "Group = TObject
    [ Prop ''id'' False TString,
      Prop ''userId'' False TString,
      Prop ''spaceId'' False TString,
      Prop ''name'' False TString,
      Prop ''icon'' True (TUnion TString TNull),
      Prop ''order'' False TNumber,
      Prop ''isArchived'' False TBoolean,
      Prop ''createdAt'' False (TUnion TString TDate),
      Prop ''updatedAt'' False (TUnion TString TDate) ]"

text \<open>\<open>export interface Bookmark\<close>, lines 32 to 46.\<close>

definition Bookmark :: ty where
  "Bookmark = TObject
    [ Prop ''id'' False TString,
      Prop ''userId'' False TString,
      Prop ''spaceId'' False TString,
      Prop ''groupId'' False TString,
      Prop ''title'' False TString,
      Prop ''url'' False TString,
      Prop ''faviconUrl'' True (TUnion TString TNull),
      Prop ''description'' True (TUnion TString TNull),
      Prop ''order'' False TNumber,
      Prop ''isPinned'' False TBoolean,
      Prop ''isArchived'' False TBoolean,
      Prop ''createdAt'' False (TUnion TString TDate),
      Prop ''updatedAt'' False (TUnion TString TDate) ]"

section \<open>The router type\<close>

text \<open>The result \<open>{ success: boolean }\<close> of the delete and reorder procedures.\<close>

definition success_result :: ty where
  "success_result = TObject [Prop ''success'' False TBoolean]"

text \<open>A procedure \<open>{ query: () => Promise<R> }\<close> or \<open>{ mutate: (input: I) => Promise<R> }\<close>.\<close>

definition query :: "ty \<Rightarrow> ty" where
  "query r = TObject [Prop ''query'' False (TFun [] (TPromise r))]"

definition mutate :: "ty \<Rightarrow> ty \<Rightarrow> ty" where
  "mutate i r = TObject [Prop ''mutate'' False (TFun [i] (TPromise r))]"

text \<open>The member \<open>spaces\<close> of \<open>AppRouter\<close>, lines 54 to 84.\<close>

definition spaces_create_input :: ty where
  "spaces_create_input = TObject
    [ Prop ''id'' False TString,
      Prop ''name'' False TString,
      Prop ''icon'' True (TUnion TString TNull),
      Prop ''color'' True (TUnion TString TNull),
      Prop ''order'' False TNumber ]"

definition spaces_update_input :: ty where
  "spaces_update_input = TObject
    [ Prop ''id'' False TString,
      Prop ''name'' True TString,
      Prop ''icon'' True (TUnion TString TNull),
      Prop ''color'' True (TUnion TString TNull),
      Prop ''isArchived'' True TBoolean ]"

definition spaces_delete_input :: ty where
  "spaces_delete_input = TObject [Prop ''id'' False TString]"

definition spaces_reorder_input :: ty where
  "spaces_reorder_input = TObject [Prop ''orderedIds'' False (TArray TString)]"

definition spaces :: ty where
  "spaces = TObject
    [ Prop ''list'' False (query (TArray Space)),
      Prop ''create'' False (mutate spaces_create_input Space),
      Prop ''update'' False (mutate spaces_update_input Space),
      Prop ''delete'' False (mutate spaces_delete_input success_result),
      Prop ''reorder'' False (mutate spaces_reorder_input success_result) ]"

text \<open>The member \<open>groups\<close>, lines 85 to 116.\<close>

definition groups_create_input :: ty where
  "groups_create_input = TObject
    [ Prop ''id'' False TString,
      Prop ''spaceId'' False TString,
      Prop ''name'' False TString,
      Prop ''icon'' True (TUnion TString TNull),
      Prop ''order'' False TNumber ]"

definition groups_update_input :: ty where
  "groups_update_input = TObject
    [ Prop ''id'' False TString,
      Prop ''name'' True TString,
      Prop ''icon'' True (TUnion TString TNull),
      Prop ''spaceId'' True TString,
      Prop ''isArchived'' True TBoolean ]"

definition groups_delete_input :: ty where
  "groups_delete_input = TObject [Prop ''id'' False TString]"

definition groups_reorder_input :: ty where
  "groups_reorder_input = TObject
    [ Prop ''spaceId'' False TString,
      Prop ''orderedIds'' False (TArray TString) ]"

definition groups :: ty where
  "groups = TObject
    [ Prop ''list'' False (query (TArray Group)),
      Prop ''create'' False (mutate groups_create_input Group),
      Prop ''update'' False (mutate groups_update_input Group),
      Prop ''delete'' False (mutate groups_delete_input success_result),
      Prop ''reorder'' False (mutate groups_reorder_input success_result) ]"

text \<open>The member \<open>bookmarks\<close>, lines 117 to 161.\<close>

definition bookmarks_create_input :: ty where
  "bookmarks_create_input = TObject
    [ Prop ''id'' False TString,
      Prop ''spaceId'' False TString,
      Prop ''groupId'' False TString,
      Prop ''title'' False TString,
      Prop ''url'' False TString,
      Prop ''description'' True (TUnion TString TNull),
      Prop ''order'' False TNumber ]"

definition bookmarks_update_input :: ty where
  "bookmarks_update_input = TObject
    [ Prop ''id'' False TString,
      Prop ''title'' True TString,
      Prop ''url'' True TString,
      Prop ''description'' True (TUnion TString TNull),
      Prop ''faviconUrl'' True (TUnion TString TNull),
      Prop ''groupId'' True TString,
      Prop ''spaceId'' True TString,
      Prop ''isPinned'' True TBoolean,
      Prop ''isArchived'' True TBoolean ]"

definition bookmarks_delete_input :: ty where
  "bookmarks_delete_input = TObject [Prop ''id'' False TString]"

definition bookmarks_reorder_input :: ty where
  "bookmarks_reorder_input = TObject
    [ Prop ''groupId'' False TString,
      Prop ''orderedIds'' False (TArray TString) ]"

definition bookmarks_move_input :: ty where
  "bookmarks_move_input = TObject
    [ Prop ''id'' False TString,
      Prop ''groupId'' False TString,
      Prop ''spaceId'' False TString ]"

definition bookmarks :: ty where
  "bookmarks = TObject
    [ Prop ''list'' False (query (TArray Bookmark)),
      Prop ''create'' False (mutate bookmarks_create_input Bookmark),
      Prop ''update'' False (mutate bookmarks_update_input Bookmark),
      Prop ''delete'' False (mutate bookmarks_delete_input success_result),
      Prop ''reorder'' False (mutate bookmarks_reorder_input success_result),
      Prop ''move'' False (mutate bookmarks_move_input Bookmark) ]"

text \<open>The member \<open>sync\<close>, lines 162 to 173.\<close>

definition sync_ensureUser_input :: ty where
  "sync_ensureUser_input = TObject
    [ Prop ''email'' True TString,
      Prop ''name'' True TString,
      Prop ''avatarUrl'' True TString ]"

definition sync :: ty where
  "sync = TObject
    [ Prop ''ensureUser'' False
        (mutate sync_ensureUser_input (TObject [Prop ''id'' False TString])),
      Prop ''status'' False
        (query (TObject [Prop ''hasServerData'' False TBoolean])) ]"

text \<open>\<open>export type AppRouter\<close>, lines 53 to 174.\<close>

definition AppRouter :: ty where
  "AppRouter = TObject
    [ Prop ''spaces'' False spaces,
      Prop ''groups'' False groups,
      Prop ''bookmarks'' False bookmarks,
      Prop ''sync'' False sync ]"

section \<open>Reading the declarations\<close>

text \<open>The properties an object type declares; any other type declares none.\<close>

fun props :: "ty \<Rightarrow> prop_decl list" where
  "props (TObject ps) = ps"
| "props _ = []"

definition prop_names :: "ty \<Rightarrow> string list" where
  "prop_names t = map pname (props t)"

text \<open>The declaration of the property \<open>n\<close> in \<open>t\<close>, the indexed access \<open>t[n]\<close>.\<close>

definition member :: "ty \<Rightarrow> string \<Rightarrow> prop_decl option" where
  "member t n = find (\<lambda>p. pname p = n) (props t)"

definition required_names :: "ty \<Rightarrow> string list" where
  "required_names t = map pname (filter (\<lambda>p. \<not> poptional p) (props t))"

definition optional_names :: "ty \<Rightarrow> string list" where
  "optional_names t = map pname (filter poptional (props t))"

text \<open>
  A procedure of the router: its family, its name, whether it is called through
  \<open>query\<close> or \<open>mutate\<close>, the type of its input (none for a procedure without
  parameter) and the type its promise resolves to.
\<close>

record procedure =
  proc_family :: string
  proc_name :: string
  proc_call :: string
  proc_input :: "ty option"
  proc_output :: ty

text \<open>
  The signatures found under a procedure node: one for each property whose type is a
  function returning a promise.
\<close>

fun signatures :: "string \<Rightarrow> string \<Rightarrow> prop_decl list \<Rightarrow> procedure list" where
  "signatures f n [] = []"
| "signatures f n (Prop c _ (TFun [] (TPromise r)) # ps) =
     \<lparr>proc_family = f, proc_name = n, proc_call = c, proc_input = None, proc_output = r\<rparr> # signatures f n ps"
| "signatures f n (Prop c _ (TFun [i] (TPromise r)) # ps) =
     \<lparr>proc_family = f, proc_name = n, proc_call = c, proc_input = Some i, proc_output = r\<rparr> # signatures f n ps"
| "signatures f n (_ # ps) = signatures f n ps"

definition family_procedures :: "prop_decl \<Rightarrow> procedure list" where
  "family_procedures fam =
     concat (map (\<lambda>p. signatures (pname fam) (pname p) (props (ptype p)))
       (props (ptype fam)))"

text \<open>Every procedure of \<open>AppRouter\<close>, in the order of the source.\<close>

definition procedures :: "procedure list" where
  "procedures = concat (map family_procedures (props AppRouter))"

text \<open>The procedure at \<open>AppRouter[f][n]\<close>.\<close>

definition procedure_at :: "string \<Rightarrow> string \<Rightarrow> procedure option" where
  "procedure_at f n = find (\<lambda>p. proc_family p = f \<and> proc_name p = n) procedures"

text \<open>The input type and the resolved result type of the procedure at \<open>AppRouter[f][n]\<close>.\<close>

definition input_of :: "string \<Rightarrow> string \<Rightarrow> ty option" where
  "input_of f n = (case procedure_at f n of None \<Rightarrow> None | Some p \<Rightarrow> proc_input p)"

definition output_of :: "string \<Rightarrow> string \<Rightarrow> ty option" where
  "output_of f n = map_option proc_output (procedure_at f n)"

text \<open>The properties of an object type that are declared \<open>name?: string | null\<close>.\<close>

definition clearable_names :: "ty \<Rightarrow> string list" where
  "clearable_names t =
     map pname (filter (\<lambda>p. poptional p \<and> ptype p = TUnion TString TNull) (props t))"

text \<open>The properties of an object type that are declared with the type \<open>number\<close>.\<close>

definition number_names :: "ty \<Rightarrow> string list" where
  "number_names t = map pname (filter (\<lambda>p. ptype p = TNumber) (props t))"

section \<open>Conformance of a value to a type\<close>

text \<open>
  Assignability under \<open>strict\<close>, the setting of the package: \<open>null\<close> and \<open>undefined\<close>
  belong to no type but their own, a required property has to be present with a value
  of its type, and an optional property may be absent, may hold \<open>undefined\<close>, or holds
  a value of its type. Properties the type does not declare are not looked at. No
  value of the model is a function or a promise.
\<close>

fun has_type :: "ty \<Rightarrow> val \<Rightarrow> bool"
  and has_prop :: "prop_decl \<Rightarrow> (string \<times> val) list \<Rightarrow> bool"
  and has_props :: "prop_decl list \<Rightarrow> (string \<times> val) list \<Rightarrow> bool" where
  "has_type TString v = (case v of VString _ \<Rightarrow> True | _ \<Rightarrow> False)"
| "has_type TNumber v = (case v of VNumber _ \<Rightarrow> True | _ \<Rightarrow> False)"
| "has_type TBoolean v = (case v of VBool _ \<Rightarrow> True | _ \<Rightarrow> False)"
| "has_type TNull v = (case v of VNull \<Rightarrow> True | _ \<Rightarrow> False)"
| "has_type TDate v = (case v of VDate _ \<Rightarrow> True | _ \<Rightarrow> False)"
| "has_type (TUnion a b) v = (has_type a v \<or> has_type b v)"
| "has_type (TArray a) v = (case v of VArray xs \<Rightarrow> list_all (has_type a) xs | _ \<Rightarrow> False)"
| "has_type (TObject ps) v = (case v of VObject kvs \<Rightarrow> has_props ps kvs | _ \<Rightarrow> False)"
| "has_type (TFun as r) v = False"
| "has_type (TPromise a) v = False"
| "has_prop (Prop n opt a) kvs =
     (case map_of kvs n of
        None \<Rightarrow> opt
      | Some x \<Rightarrow> has_type a x \<or> (opt \<and> x = VUndefined))"
| "has_props [] kvs = True"
| "has_props (p # ps) kvs = (has_prop p kvs \<and> has_props ps kvs)"

text \<open>
  An object literal written at the call is checked for excess properties as well: each
  of its properties has to be declared by the type.
\<close>

fun no_excess :: "ty \<Rightarrow> val \<Rightarrow> bool" where
  "no_excess (TObject ps) (VObject kvs) = list_all (\<lambda>kv. fst kv \<in> set (map pname ps)) kvs"
| "no_excess _ _ = True"

definition accepts :: "ty \<Rightarrow> val \<Rightarrow> bool" where
  "accepts t v = (has_type t v \<and> no_excess t v)"

section \<open>The procedures of the router\<close>

lemmas router_defs = AppRouter_def spaces_def groups_def bookmarks_def sync_def query_def mutate_def

lemma procedures_eq: "procedures =
  [ \<lparr>proc_family = ''spaces'', proc_name = ''list'', proc_call = ''query'',
      proc_input = None, proc_output = TArray Space\<rparr>,
    \<lparr>proc_family = ''spaces'', proc_name = ''create'', proc_call = ''mutate'',
      proc_input = Some spaces_create_input, proc_output = Space\<rparr>,
    \<lparr>proc_family = ''spaces'', proc_name = ''update'', proc_call = ''mutate'',
      proc_input = Some spaces_update_input, proc_output = Space\<rparr>,
    \<lparr>proc_family = ''spaces'', proc_name = ''delete'', proc_call = ''mutate'',
      proc_input = Some spaces_delete_input, proc_output = success_result\<rparr>,
    \<lparr>proc_family = ''spaces'', proc_name = ''reorder'', proc_call = ''mutate'',
      proc_input = Some spaces_reorder_input, proc_output = success_result\<rparr>,
    \<lparr>proc_family = ''groups'', proc_name = ''list'', proc_call = ''query'',
      proc_input = None, proc_output = TArray Group\<rparr>,
    \<lparr>proc_family = ''groups'', proc_name = ''create'', proc_call = ''mutate'',
      proc_input = Some groups_create_input, proc_output = Group\<rparr>,
    \<lparr>proc_family = ''groups'', proc_name = ''update'', proc_call = ''mutate'',
      proc_input = Some groups_update_input, proc_output = Group\<rparr>,
    \<lparr>proc_family = ''groups'', proc_name = ''delete'', proc_call = ''mutate'',
      proc_input = Some groups_delete_input, proc_output = success_result\<rparr>,
    \<lparr>proc_family = ''groups'', proc_name = ''reorder'', proc_call = ''mutate'',
      proc_input = Some groups_reorder_input, proc_output = success_result\<rparr>,
    \<lparr>proc_family = ''bookmarks'', proc_name = ''list'', proc_call = ''query'',
      proc_input = None, proc_output = TArray Bookmark\<rparr>,
    \<lparr>proc_family = ''bookmarks'', proc_name = ''create'', proc_call = ''mutate'',
      proc_input = Some bookmarks_create_input, proc_output = Bookmark\<rparr>,
    \<lparr>proc_family = ''bookmarks'', proc_name = ''update'', proc_call = ''mutate'',
      proc_input = Some bookmarks_update_input, proc_output = Bookmark\<rparr>,
    \<lparr>proc_family = ''bookmarks'', proc_name = ''delete'', proc_call = ''mutate'',
      proc_input = Some bookmarks_delete_input, proc_output = success_result\<rparr>,
    \<lparr>proc_family = ''bookmarks'', proc_name = ''reorder'', proc_call = ''mutate'',
      proc_input = Some bookmarks_reorder_input, proc_output = success_result\<rparr>,
    \<lparr>proc_family = ''bookmarks'', proc_name = ''move'', proc_call = ''mutate'',
      proc_input = Some bookmarks_move_input, proc_output = Bookmark\<rparr>,
    \<lparr>proc_family = ''sync'', proc_name = ''ensureUser'', proc_call = ''mutate'',
      proc_input = Some sync_ensureUser_input,
      proc_output = TObject [Prop ''id'' False TString]\<rparr>,
    \<lparr>proc_family = ''sync'', proc_name = ''status'', proc_call = ''query'',
      proc_input = None,
      proc_output = TObject [Prop ''hasServerData'' False TBoolean]\<rparr> ]"
  by (simp add: procedures_def family_procedures_def router_defs)

lemma input_of_simps:
  "input_of ''spaces'' ''create'' = Some spaces_create_input"
  "input_of ''spaces'' ''update'' = Some spaces_update_input"
  "input_of ''groups'' ''update'' = Some groups_update_input"
  "input_of ''groups'' ''reorder'' = Some groups_reorder_input"
  "input_of ''bookmarks'' ''create'' = Some bookmarks_create_input"
  "input_of ''bookmarks'' ''update'' = Some bookmarks_update_input"
  "input_of ''bookmarks'' ''move'' = Some bookmarks_move_input"
  by (simp_all add: input_of_def procedure_at_def procedures_eq)

lemma update_input_cases:
  assumes "input_of f ''update'' = Some T"
  shows "(f = ''spaces'' \<and> T = spaces_update_input) \<or> (f = ''groups'' \<and> T = groups_update_input)
       \<or> (f = ''bookmarks'' \<and> T = bookmarks_update_input)"
  using assms by (simp add: input_of_def procedure_at_def procedures_eq split: if_splits)

lemma procedure_inputs:
  assumes "p \<in> set procedures" and "proc_input p = Some T"
  shows "T \<in> {spaces_create_input, spaces_update_input, spaces_delete_input, spaces_reorder_input,
     groups_create_input, groups_update_input, groups_delete_input, groups_reorder_input,
     bookmarks_create_input, bookmarks_update_input, bookmarks_delete_input,
     bookmarks_reorder_input, bookmarks_move_input, sync_ensureUser_input}"
  using assms unfolding procedures_eq by auto

lemma map_of_filter_key:
  "map_of (filter (\<lambda>kv. fst kv \<noteq> k) kvs) n = (if n = k then None else map_of kvs n)"
  by (induction kvs) auto

lemmas input_defs = spaces_create_input_def spaces_update_input_def spaces_delete_input_def
  spaces_reorder_input_def groups_create_input_def groups_update_input_def groups_delete_input_def
  groups_reorder_input_def bookmarks_create_input_def bookmarks_update_input_def
  bookmarks_delete_input_def bookmarks_reorder_input_def bookmarks_move_input_def
  sync_ensureUser_input_def

lemma absent_iff: "k \<notin> fst ` set kvs \<longleftrightarrow> map_of kvs k = None"
  by (simp add: map_of_eq_None_iff)

lemma input_prop_names:
  "prop_names spaces_create_input = [''id'', ''name'', ''icon'', ''color'', ''order'']"
  "prop_names spaces_update_input = [''id'', ''name'', ''icon'', ''color'', ''isArchived'']"
  "prop_names spaces_delete_input = [''id'']"
  "prop_names spaces_reorder_input = [''orderedIds'']"
  "prop_names groups_create_input = [''id'', ''spaceId'', ''name'', ''icon'', ''order'']"
  "prop_names groups_update_input = [''id'', ''name'', ''icon'', ''spaceId'', ''isArchived'']"
  "prop_names groups_delete_input = [''id'']"
  "prop_names groups_reorder_input = [''spaceId'', ''orderedIds'']"
  "prop_names bookmarks_create_input =
     [''id'', ''spaceId'', ''groupId'', ''title'', ''url'', ''description'', ''order'']"
  "prop_names bookmarks_update_input =
     [''id'', ''title'', ''url'', ''description'', ''faviconUrl'', ''groupId'', ''spaceId'',
      ''isPinned'', ''isArchived'']"
  "prop_names bookmarks_delete_input = [''id'']"
  "prop_names bookmarks_reorder_input = [''groupId'', ''orderedIds'']"
  "prop_names bookmarks_move_input = [''id'', ''groupId'', ''spaceId'']"
  "prop_names sync_ensureUser_input = [''email'', ''name'', ''avatarUrl'']"
  by (simp_all add: prop_names_def input_defs)

lemma accepts_names:
  assumes "accepts T (VObject kvs)" and "props T \<noteq> []"
  shows "fst ` set kvs \<subseteq> set (prop_names T)"
  using assms by (cases T) (auto simp: accepts_def prop_names_def list_all_iff)

section \<open>Creating a space\<close>

text \<open>
  Claim C7. The input of \<open>spaces.create\<close> requires exactly \<open>id\<close>, \<open>name\<close> and
  \<open>order\<close>, with \<open>icon\<close> and \<open>color\<close> optional: the literal
  \<open>{id: "s1", name: "Work", order: 0}\<close> is accepted without \<open>icon\<close> or \<open>color\<close>,
  and no object that lacks one of \<open>id\<close>, \<open>name\<close>, \<open>order\<close> has the input type.
\<close>

theorem spaces_create_required_fields:
  "input_of ''spaces'' ''create'' = Some spaces_create_input
   \<and> required_names spaces_create_input = [''id'', ''name'', ''order'']
   \<and> optional_names spaces_create_input = [''icon'', ''color'']
   \<and> accepts spaces_create_input
        (VObject [(''id'', VString ''s1''), (''name'', VString ''Work''), (''order'', VNumber 0)])
   \<and> (k \<in> {''id'', ''name'', ''order''} \<and> k \<notin> fst ` set kvs
        \<longrightarrow> \<not> has_type spaces_create_input (VObject kvs))"
proof -
  have "accepts spaces_create_input
        (VObject [(''id'', VString ''s1''), (''name'', VString ''Work''), (''order'', VNumber 0)])"
    by (simp add: accepts_def spaces_create_input_def)
  moreover have "k \<in> {''id'', ''name'', ''order''} \<and> k \<notin> fst ` set kvs
        \<longrightarrow> \<not> has_type spaces_create_input (VObject kvs)"
    by (auto simp: absent_iff spaces_create_input_def)
  ultimately show ?thesis
    by (simp add: input_of_simps required_names_def optional_names_def spaces_create_input_def)
qed

text \<open>The theorem at a concrete input.\<close>

theorem spaces_create_required_fields_witness:
  "''name'' \<in> {''id'', ''name'', ''order''}
   \<and> ''name'' \<notin> fst ` set [(''id'', VString ''s1''), (''order'', VNumber 0)]
   \<and> \<not> has_type spaces_create_input (VObject [(''id'', VString ''s1''), (''order'', VNumber 0)])"
  using spaces_create_required_fields [of "''name''" "[(''id'', VString ''s1''), (''order'', VNumber 0)]"]
  by simp

section \<open>Reordering groups\<close>

text \<open>
  Claim C4. The input of \<open>groups.reorder\<close> requires both \<open>spaceId\<close> and
  \<open>orderedIds\<close>: an object with \<open>orderedIds\<close> alone does not have the input type,
  and every value of the input type is an object that holds a string under \<open>spaceId\<close>
  and an array of strings under \<open>orderedIds\<close>.
\<close>

theorem groups_reorder_requires_scope:
  "input_of ''groups'' ''reorder'' = Some groups_reorder_input
   \<and> required_names groups_reorder_input = [''spaceId'', ''orderedIds'']
   \<and> \<not> has_type groups_reorder_input (VObject [(''orderedIds'', VArray ids)])
   \<and> (has_type groups_reorder_input v \<longrightarrow>
        (\<exists>kvs s xs. v = VObject kvs \<and> map_of kvs ''spaceId'' = Some (VString s)
           \<and> map_of kvs ''orderedIds'' = Some (VArray xs) \<and> list_all (has_type TString) xs))"
proof -
  have "has_type groups_reorder_input v \<longrightarrow>
        (\<exists>kvs s xs. v = VObject kvs \<and> map_of kvs ''spaceId'' = Some (VString s)
           \<and> map_of kvs ''orderedIds'' = Some (VArray xs) \<and> list_all (has_type TString) xs)"
    by (auto simp: groups_reorder_input_def split: val.splits option.splits)
  then show ?thesis
    by (simp add: input_of_simps required_names_def groups_reorder_input_def)
qed

text \<open>The theorem at a concrete input.\<close>

theorem groups_reorder_requires_scope_witness:
  "has_type groups_reorder_input
     (VObject [(''spaceId'', VString ''s1''), (''orderedIds'', VArray [VString ''g2'', VString ''g1''])])
   \<and> (\<exists>kvs s xs. VObject [(''spaceId'', VString ''s1''), (''orderedIds'', VArray [VString ''g2'', VString ''g1''])] = VObject kvs
         \<and> map_of kvs ''spaceId'' = Some (VString s)
         \<and> map_of kvs ''orderedIds'' = Some (VArray xs) \<and> list_all (has_type TString) xs)"
proof -
  have h: "has_type groups_reorder_input
     (VObject [(''spaceId'', VString ''s1''), (''orderedIds'', VArray [VString ''g2'', VString ''g1''])])"
    by (simp add: groups_reorder_input_def)
  with groups_reorder_requires_scope
    [of _ "VObject [(''spaceId'', VString ''s1''), (''orderedIds'', VArray [VString ''g2'', VString ''g1''])]"]
  show ?thesis by blast
qed

section \<open>Moving a bookmark\<close>

lemma output_of_simps:
  "output_of ''spaces'' ''list'' = Some (TArray Space)"
  "output_of ''spaces'' ''create'' = Some Space"
  "output_of ''spaces'' ''update'' = Some Space"
  "output_of ''groups'' ''list'' = Some (TArray Group)"
  "output_of ''groups'' ''create'' = Some Group"
  "output_of ''groups'' ''update'' = Some Group"
  "output_of ''bookmarks'' ''list'' = Some (TArray Bookmark)"
  "output_of ''bookmarks'' ''create'' = Some Bookmark"
  "output_of ''bookmarks'' ''update'' = Some Bookmark"
  "output_of ''bookmarks'' ''move'' = Some Bookmark"
  by (simp_all add: output_of_def procedure_at_def procedures_eq)

text \<open>
  Claim C2. The literal \<open>{id: "b1", groupId: "g2", spaceId: "s2"}\<close> is accepted by
  \<open>bookmarks.move\<close>, whose input type differs from the one of \<open>bookmarks.update\<close>:
  no object that lacks one of \<open>id\<close>, \<open>groupId\<close>, \<open>spaceId\<close> has the input type of
  \<open>move\<close>, whereas an object with \<open>id\<close> alone is accepted by \<open>update\<close> (and is
  not an input of \<open>move\<close>). The promise of \<open>move\<close> resolves to a \<open>Bookmark\<close>.
\<close>

theorem bookmarks_move_distinct_from_update:
  "input_of ''bookmarks'' ''move'' = Some bookmarks_move_input
   \<and> output_of ''bookmarks'' ''move'' = Some Bookmark
   \<and> input_of ''bookmarks'' ''update'' = Some bookmarks_update_input
   \<and> bookmarks_move_input \<noteq> bookmarks_update_input
   \<and> accepts bookmarks_move_input
        (VObject [(''id'', VString ''b1''), (''groupId'', VString ''g2''), (''spaceId'', VString ''s2'')])
   \<and> (k \<in> {''id'', ''groupId'', ''spaceId''} \<and> k \<notin> fst ` set kvs
        \<longrightarrow> \<not> has_type bookmarks_move_input (VObject kvs))
   \<and> accepts bookmarks_update_input (VObject [(''id'', VString i)])
   \<and> \<not> has_type bookmarks_move_input (VObject [(''id'', VString i)])"
proof -
  have "k \<in> {''id'', ''groupId'', ''spaceId''} \<and> k \<notin> fst ` set kvs
        \<longrightarrow> \<not> has_type bookmarks_move_input (VObject kvs)"
    by (auto simp: absent_iff bookmarks_move_input_def)
  moreover have "accepts bookmarks_move_input
        (VObject [(''id'', VString ''b1''), (''groupId'', VString ''g2''), (''spaceId'', VString ''s2'')])"
    by (simp add: accepts_def bookmarks_move_input_def)
  moreover have "accepts bookmarks_update_input (VObject [(''id'', VString i)])"
    by (simp add: accepts_def bookmarks_update_input_def)
  moreover have "\<not> has_type bookmarks_move_input (VObject [(''id'', VString i)])"
    by (simp add: bookmarks_move_input_def)
  moreover have "bookmarks_move_input \<noteq> bookmarks_update_input"
    by (simp add: bookmarks_move_input_def bookmarks_update_input_def)
  ultimately show ?thesis
    by (simp add: input_of_simps output_of_simps)
qed

text \<open>The theorem at a concrete input.\<close>

theorem bookmarks_move_distinct_from_update_witness:
  "''spaceId'' \<in> {''id'', ''groupId'', ''spaceId''}
   \<and> ''spaceId'' \<notin> fst ` set [(''id'', VString ''b1''), (''groupId'', VString ''g2'')]
   \<and> \<not> has_type bookmarks_move_input (VObject [(''id'', VString ''b1''), (''groupId'', VString ''g2'')])"
  using bookmarks_move_distinct_from_update
    [of "''spaceId''" "[(''id'', VString ''b1''), (''groupId'', VString ''g2'')]"]
  by simp

section \<open>Partial updates\<close>

lemma update_required:
  "required_names spaces_update_input = [''id'']"
  "required_names groups_update_input = [''id'']"
  "required_names bookmarks_update_input = [''id'']"
  by (simp_all add: required_names_def input_defs)

lemma update_accepts_id:
  "accepts spaces_update_input (VObject [(''id'', VString i)])"
  "accepts groups_update_input (VObject [(''id'', VString i)])"
  "accepts bookmarks_update_input (VObject [(''id'', VString i)])"
  by (simp_all add: accepts_def input_defs)

lemma no_excess_filter:
  "no_excess t (VObject kvs) \<Longrightarrow> no_excess t (VObject (filter P kvs))"
  by (cases t) (auto simp: list_all_iff)

lemma update_omit:
  assumes "k \<noteq> ''id''"
  shows "has_type spaces_update_input (VObject kvs) \<Longrightarrow>
      has_type spaces_update_input (VObject (filter (\<lambda>kv. fst kv \<noteq> k) kvs))"
    and "has_type groups_update_input (VObject kvs) \<Longrightarrow>
      has_type groups_update_input (VObject (filter (\<lambda>kv. fst kv \<noteq> k) kvs))"
    and "has_type bookmarks_update_input (VObject kvs) \<Longrightarrow>
      has_type bookmarks_update_input (VObject (filter (\<lambda>kv. fst kv \<noteq> k) kvs))"
  using assms by (simp_all add: input_defs map_of_filter_key)

text \<open>
  Claim C3. For every procedure \<open>update\<close> of the router (there is one in each of
  \<open>spaces\<close>, \<open>groups\<close>, \<open>bookmarks\<close>) the only required property of the input is
  \<open>id\<close>: an object with \<open>id\<close> alone is accepted, and dropping any other property
  from an accepted input leaves an accepted input.
\<close>

theorem update_inputs_need_only_id:
  "input_of f ''update'' = Some T \<Longrightarrow>
     f \<in> {''spaces'', ''groups'', ''bookmarks''}
     \<and> required_names T = [''id'']
     \<and> accepts T (VObject [(''id'', VString i)])
     \<and> (accepts T (VObject kvs) \<and> k \<noteq> ''id''
          \<longrightarrow> accepts T (VObject (filter (\<lambda>kv. fst kv \<noteq> k) kvs)))"
proof -
  assume "input_of f ''update'' = Some T"
  then have T: "T \<in> {spaces_update_input, groups_update_input, bookmarks_update_input}"
    and f: "f \<in> {''spaces'', ''groups'', ''bookmarks''}"
    using update_input_cases [of f T] by auto
  from T have "required_names T = [''id'']"
    by (auto simp: update_required)
  moreover from T have "accepts T (VObject [(''id'', VString i)])"
    by (auto simp: update_accepts_id)
  moreover have "accepts T (VObject (filter (\<lambda>kv. fst kv \<noteq> k) kvs))"
    if "accepts T (VObject kvs)" and "k \<noteq> ''id''"
  proof -
    from that T have "has_type T (VObject (filter (\<lambda>kv. fst kv \<noteq> k) kvs))"
      using update_omit [of k kvs] by (auto simp: accepts_def)
    with that show ?thesis
      by (simp add: accepts_def no_excess_filter)
  qed
  ultimately show ?thesis
    using f by blast
qed

text \<open>The theorem at a concrete input.\<close>

theorem update_inputs_need_only_id_witness:
  "input_of ''spaces'' ''update'' = Some spaces_update_input
   \<and> input_of ''groups'' ''update'' = Some groups_update_input
   \<and> input_of ''bookmarks'' ''update'' = Some bookmarks_update_input
   \<and> accepts spaces_update_input (VObject [(''id'', VString ''s1'')])
   \<and> accepts groups_update_input (VObject [(''id'', VString ''g1'')])
   \<and> accepts bookmarks_update_input (VObject [(''id'', VString ''b1'')])"
  using update_inputs_need_only_id [of "''spaces''" spaces_update_input "''s1''"]
    update_inputs_need_only_id [of "''groups''" groups_update_input "''g1''"]
    update_inputs_need_only_id [of "''bookmarks''" bookmarks_update_input "''b1''"]
  by (simp add: input_of_simps)

section \<open>The success flag\<close>

lemma result_distinct:
  "Space \<noteq> success_result" "Group \<noteq> success_result" "Bookmark \<noteq> success_result"
  "TArray E \<noteq> success_result"
  "TObject [Prop ''id'' False TString] \<noteq> success_result"
  "TObject [Prop ''hasServerData'' False TBoolean] \<noteq> success_result"
  by (simp_all add: success_result_def Space_def Group_def Bookmark_def)

lemma procedure_results:
  assumes "p \<in> set procedures"
  shows "(proc_name p \<in> {''delete'', ''reorder''} \<and> proc_output p = success_result)
       \<or> (proc_name p \<notin> {''delete'', ''reorder''} \<and> proc_output p \<noteq> success_result)"
  using assms unfolding procedures_eq set_simps insert_iff empty_iff
  by (elim disjE) (simp_all add: result_distinct)

lemma delete_reorder_results:
  "output_of ''spaces'' ''delete'' = Some success_result"
  "output_of ''spaces'' ''reorder'' = Some success_result"
  "output_of ''groups'' ''delete'' = Some success_result"
  "output_of ''groups'' ''reorder'' = Some success_result"
  "output_of ''bookmarks'' ''delete'' = Some success_result"
  "output_of ''bookmarks'' ''reorder'' = Some success_result"
  by (simp_all add: output_of_def procedure_at_def procedures_eq)

text \<open>
  Claim C5. A procedure of the router resolves to \<open>{ success: boolean }\<close>, an object
  type with that single property, exactly when it is a \<open>delete\<close> or a \<open>reorder\<close>;
  each of the three entity families has both.
\<close>

theorem success_result_only_from_delete_and_reorder:
  "success_result = TObject [Prop ''success'' False TBoolean]
   \<and> (p \<in> set procedures \<longrightarrow>
        (proc_output p = success_result) = (proc_name p \<in> {''delete'', ''reorder''}))
   \<and> (f \<in> {''spaces'', ''groups'', ''bookmarks''} \<and> n \<in> {''delete'', ''reorder''} \<longrightarrow>
        output_of f n = Some success_result)"
proof -
  have "p \<in> set procedures \<longrightarrow>
        (proc_output p = success_result) = (proc_name p \<in> {''delete'', ''reorder''})"
    using procedure_results [of p] by blast
  moreover have "f \<in> {''spaces'', ''groups'', ''bookmarks''} \<and> n \<in> {''delete'', ''reorder''} \<longrightarrow>
        output_of f n = Some success_result"
    by (auto simp: delete_reorder_results)
  ultimately show ?thesis
    by (simp add: success_result_def)
qed

text \<open>The theorem at a concrete input.\<close>

theorem success_result_only_from_delete_and_reorder_witness:
  "''groups'' \<in> {''spaces'', ''groups'', ''bookmarks''} \<and> ''reorder'' \<in> {''delete'', ''reorder''}
   \<and> output_of ''groups'' ''reorder'' = Some (TObject [Prop ''success'' False TBoolean])
   \<and> \<lparr>proc_family = ''bookmarks'', proc_name = ''move'', proc_call = ''mutate'',
        proc_input = Some bookmarks_move_input, proc_output = Bookmark\<rparr> \<in> set procedures
   \<and> Bookmark \<noteq> TObject [Prop ''success'' False TBoolean]"
  using success_result_only_from_delete_and_reorder
    [of "\<lparr>proc_family = ''bookmarks'', proc_name = ''move'', proc_call = ''mutate'',
        proc_input = Some bookmarks_move_input, proc_output = Bookmark\<rparr>" "''groups''" "''reorder''"]
  by (simp add: procedures_eq delete_reorder_results success_result_def)

section \<open>The owning user\<close>

lemma entity_userId:
  "member Space ''userId'' = Some (Prop ''userId'' False TString)"
  "member Group ''userId'' = Some (Prop ''userId'' False TString)"
  "member Bookmark ''userId'' = Some (Prop ''userId'' False TString)"
  by (simp_all add: member_def Space_def Group_def Bookmark_def)

lemma input_props_nonempty:
  assumes "p \<in> set procedures" and "proc_input p = Some T"
  shows "props T \<noteq> []"
  using procedure_inputs [OF assms] by (auto simp: input_defs)

lemma input_no_userId:
  assumes "p \<in> set procedures" and "proc_input p = Some T"
  shows "''userId'' \<notin> set (prop_names T)"
  using procedure_inputs [OF assms] by (auto simp: prop_names_def input_defs)

text \<open>
  Claim C10. No input type of any procedure declares \<open>userId\<close>, so an input literal
  that carries \<open>userId\<close> is rejected everywhere, while each of \<open>Space\<close>,
  \<open>Group\<close> and \<open>Bookmark\<close> declares \<open>userId\<close> as a required string.
\<close>

theorem no_input_declares_userId:
  "(p \<in> set procedures \<and> proc_input p = Some T \<longrightarrow>
      ''userId'' \<notin> set (prop_names T)
      \<and> (''userId'' \<in> fst ` set kvs \<longrightarrow> \<not> accepts T (VObject kvs)))
   \<and> (E \<in> {Space, Group, Bookmark} \<longrightarrow> member E ''userId'' = Some (Prop ''userId'' False TString))"
  using input_no_userId [of p T] input_props_nonempty [of p T] accepts_names [of T kvs]
  by (auto simp: entity_userId)

text \<open>The theorem at a concrete input.\<close>

theorem no_input_declares_userId_witness:
  "\<lparr>proc_family = ''spaces'', proc_name = ''update'', proc_call = ''mutate'',
      proc_input = Some spaces_update_input, proc_output = Space\<rparr> \<in> set procedures
   \<and> ''userId'' \<notin> set (prop_names spaces_update_input)
   \<and> ''userId'' \<in> fst ` set [(''id'', VString ''s1''), (''userId'', VString ''u2'')]
   \<and> \<not> accepts spaces_update_input (VObject [(''id'', VString ''s1''), (''userId'', VString ''u2'')])
   \<and> member Space ''userId'' = Some (Prop ''userId'' False TString)"
  using no_input_declares_userId
    [of "\<lparr>proc_family = ''spaces'', proc_name = ''update'', proc_call = ''mutate'',
      proc_input = Some spaces_update_input, proc_output = Space\<rparr>" spaces_update_input
      "[(''id'', VString ''s1''), (''userId'', VString ''u2'')]" Space]
  by (simp add: procedures_eq)

section \<open>Entity results and timestamps\<close>

lemma entity_timestamps:
  "member Space ''createdAt'' = Some (Prop ''createdAt'' False (TUnion TString TDate))"
  "member Space ''updatedAt'' = Some (Prop ''updatedAt'' False (TUnion TString TDate))"
  "member Group ''createdAt'' = Some (Prop ''createdAt'' False (TUnion TString TDate))"
  "member Group ''updatedAt'' = Some (Prop ''updatedAt'' False (TUnion TString TDate))"
  "member Bookmark ''createdAt'' = Some (Prop ''createdAt'' False (TUnion TString TDate))"
  "member Bookmark ''updatedAt'' = Some (Prop ''updatedAt'' False (TUnion TString TDate))"
  by (simp_all add: member_def Space_def Group_def Bookmark_def)

lemma timestamp_representations:
  assumes "x = VString s \<or> x = VDate d"
  shows "has_type Space (VObject kvs) \<Longrightarrow> has_type Space (VObject ((''createdAt'', x) # kvs))"
    and "has_type Space (VObject kvs) \<Longrightarrow> has_type Space (VObject ((''updatedAt'', x) # kvs))"
    and "has_type Group (VObject kvs) \<Longrightarrow> has_type Group (VObject ((''createdAt'', x) # kvs))"
    and "has_type Group (VObject kvs) \<Longrightarrow> has_type Group (VObject ((''updatedAt'', x) # kvs))"
    and "has_type Bookmark (VObject kvs) \<Longrightarrow> has_type Bookmark (VObject ((''createdAt'', x) # kvs))"
    and "has_type Bookmark (VObject kvs) \<Longrightarrow> has_type Bookmark (VObject ((''updatedAt'', x) # kvs))"
  using assms by (auto simp: Space_def Group_def Bookmark_def)

lemma has_type_array:
  "has_type (TArray E) v \<Longrightarrow> \<exists>xs. v = VArray xs \<and> (\<forall>x\<in>set xs. has_type E x)"
  by (cases v) (auto simp: list_all_iff)

text \<open>
  Claim C6. In each entity family \<open>list\<close> resolves to an array of the family's entity
  type and \<open>create\<close> and \<open>update\<close> resolve to the entity type itself, so every value
  they return has the declared shape of its entity. That shape declares \<open>createdAt\<close>
  and \<open>updatedAt\<close> as \<open>string | Date\<close>: a conforming entity stays conforming when
  either timestamp is given as a string or as a date.
\<close>

theorem entity_results_conform:
  "(f, E) \<in> {(''spaces'', Space), (''groups'', Group), (''bookmarks'', Bookmark)} \<Longrightarrow>
     output_of f ''list'' = Some (TArray E)
     \<and> output_of f ''create'' = Some E
     \<and> output_of f ''update'' = Some E
     \<and> (has_type (TArray E) v \<longrightarrow> (\<exists>xs. v = VArray xs \<and> (\<forall>x\<in>set xs. has_type E x)))
     \<and> (k \<in> {''createdAt'', ''updatedAt''} \<longrightarrow>
          member E k = Some (Prop k False (TUnion TString TDate))
          \<and> (has_type E (VObject kvs) \<longrightarrow>
                has_type E (VObject ((k, VString s) # kvs))
                \<and> has_type E (VObject ((k, VDate d) # kvs))))"
proof -
  assume "(f, E) \<in> {(''spaces'', Space), (''groups'', Group), (''bookmarks'', Bookmark)}"
  then have fE: "(f = ''spaces'' \<and> E = Space) \<or> (f = ''groups'' \<and> E = Group)
      \<or> (f = ''bookmarks'' \<and> E = Bookmark)"
    by simp
  then have "output_of f ''list'' = Some (TArray E)" "output_of f ''create'' = Some E"
    "output_of f ''update'' = Some E"
    by (auto simp: output_of_simps)
  moreover have "has_type (TArray E) v \<longrightarrow> (\<exists>xs. v = VArray xs \<and> (\<forall>x\<in>set xs. has_type E x))"
    using has_type_array [of E v] by blast
  moreover have "member E k = Some (Prop k False (TUnion TString TDate))"
    if "k \<in> {''createdAt'', ''updatedAt''}"
    using that fE by (auto simp: entity_timestamps)
  moreover have "has_type E (VObject ((k, VString s) # kvs)) \<and> has_type E (VObject ((k, VDate d) # kvs))"
    if "k \<in> {''createdAt'', ''updatedAt''}" and "has_type E (VObject kvs)"
    using that fE timestamp_representations [of "VString s" s d kvs]
      timestamp_representations [of "VDate d" s d kvs]
    by auto
  ultimately show ?thesis by blast
qed

text \<open>The theorem at a concrete input.\<close>

theorem entity_results_conform_witness:
  "(''spaces'', Space) \<in> {(''spaces'', Space), (''groups'', Group), (''bookmarks'', Bookmark)}
   \<and> ''updatedAt'' \<in> {''createdAt'', ''updatedAt''}
   \<and> output_of ''spaces'' ''list'' = Some (TArray Space)
   \<and> output_of ''spaces'' ''create'' = Some Space
   \<and> output_of ''spaces'' ''update'' = Some Space
   \<and> has_type Space (VObject
        [(''id'', VString ''s1''), (''userId'', VString ''u1''), (''name'', VString ''Work''),
         (''order'', VNumber 0), (''isArchived'', VBool False),
         (''createdAt'', VString ''2024-01-01T00:00:00.000Z''), (''updatedAt'', VDate 1704067200000)])
   \<and> has_type Space (VObject
        [(''updatedAt'', VString ''2024-01-02T00:00:00.000Z''),
         (''id'', VString ''s1''), (''userId'', VString ''u1''), (''name'', VString ''Work''),
         (''order'', VNumber 0), (''isArchived'', VBool False),
         (''createdAt'', VString ''2024-01-01T00:00:00.000Z''), (''updatedAt'', VDate 1704067200000)])"
proof -
  have h: "has_type Space (VObject
        [(''id'', VString ''s1''), (''userId'', VString ''u1''), (''name'', VString ''Work''),
         (''order'', VNumber 0), (''isArchived'', VBool False),
         (''createdAt'', VString ''2024-01-01T00:00:00.000Z''), (''updatedAt'', VDate 1704067200000)])"
    by (simp add: Space_def)
  with entity_results_conform [of "''spaces''" Space _ "''updatedAt''"
      "[(''id'', VString ''s1''), (''userId'', VString ''u1''), (''name'', VString ''Work''),
         (''order'', VNumber 0), (''isArchived'', VBool False),
         (''createdAt'', VString ''2024-01-01T00:00:00.000Z''), (''updatedAt'', VDate 1704067200000)]"
      "''2024-01-02T00:00:00.000Z''"]
  show ?thesis by simp
qed

section \<open>Clearable properties of an update\<close>

lemma update_clearable:
  "clearable_names spaces_update_input = [''icon'', ''color'']"
  "clearable_names groups_update_input = [''icon'']"
  "clearable_names bookmarks_update_input = [''description'', ''faviconUrl'']"
  by (simp_all add: clearable_names_def input_defs)

lemma clearable_cases:
  assumes "input_of f ''update'' = Some T" and "k \<in> set (clearable_names T)"
  shows "(T = spaces_update_input \<and> k = ''icon'') \<or> (T = spaces_update_input \<and> k = ''color'')
       \<or> (T = groups_update_input \<and> k = ''icon'')
       \<or> (T = bookmarks_update_input \<and> k = ''description'')
       \<or> (T = bookmarks_update_input \<and> k = ''faviconUrl'')"
  using update_input_cases [OF assms(1)] assms(2) by (auto simp: update_clearable)

lemma clearable_member:
  "member spaces_update_input ''icon'' = Some (Prop ''icon'' True (TUnion TString TNull))"
  "member spaces_update_input ''color'' = Some (Prop ''color'' True (TUnion TString TNull))"
  "member groups_update_input ''icon'' = Some (Prop ''icon'' True (TUnion TString TNull))"
  "member bookmarks_update_input ''description'' = Some (Prop ''description'' True (TUnion TString TNull))"
  "member bookmarks_update_input ''faviconUrl'' = Some (Prop ''faviconUrl'' True (TUnion TString TNull))"
  by (simp_all add: member_def input_defs)

lemma clearable_accepts:
  assumes "x = VString s \<or> x = VNull"
  shows "accepts spaces_update_input (VObject [(''id'', VString i), (''icon'', x)])"
    and "accepts spaces_update_input (VObject [(''id'', VString i), (''color'', x)])"
    and "accepts groups_update_input (VObject [(''id'', VString i), (''icon'', x)])"
    and "accepts bookmarks_update_input (VObject [(''id'', VString i), (''description'', x)])"
    and "accepts bookmarks_update_input (VObject [(''id'', VString i), (''faviconUrl'', x)])"
  using assms by (auto simp: accepts_def input_defs)

text \<open>
  Claim C8. The properties declared \<open>?: string | null\<close> by the update inputs are
  \<open>icon\<close> and \<open>color\<close> for spaces, \<open>icon\<close> for groups, \<open>description\<close> and
  \<open>faviconUrl\<close> for bookmarks. Each of them admits three states: present with a
  string, present as \<open>null\<close>, and absent; all three inputs are accepted.
\<close>

theorem clearable_fields_three_states:
  "clearable_names spaces_update_input = [''icon'', ''color'']
   \<and> clearable_names groups_update_input = [''icon'']
   \<and> clearable_names bookmarks_update_input = [''description'', ''faviconUrl'']
   \<and> (input_of f ''update'' = Some T \<and> k \<in> set (clearable_names T) \<longrightarrow>
        member T k = Some (Prop k True (TUnion TString TNull))
        \<and> accepts T (VObject [(''id'', VString i), (k, VString s)])
        \<and> accepts T (VObject [(''id'', VString i), (k, VNull)])
        \<and> accepts T (VObject [(''id'', VString i)]))"
proof -
  have "member T k = Some (Prop k True (TUnion TString TNull))
        \<and> accepts T (VObject [(''id'', VString i), (k, VString s)])
        \<and> accepts T (VObject [(''id'', VString i), (k, VNull)])
        \<and> accepts T (VObject [(''id'', VString i)])"
    if "input_of f ''update'' = Some T" and "k \<in> set (clearable_names T)"
    using clearable_cases [OF that] clearable_accepts [of "VString s" s i]
      clearable_accepts [of VNull s i] update_accepts_id [of i]
    by (elim disjE) (simp_all add: clearable_member)
  then show ?thesis
    by (simp add: update_clearable)
qed

text \<open>The theorem at a concrete input.\<close>

theorem clearable_fields_three_states_witness:
  "input_of ''bookmarks'' ''update'' = Some bookmarks_update_input
   \<and> ''faviconUrl'' \<in> set (clearable_names bookmarks_update_input)
   \<and> member bookmarks_update_input ''faviconUrl'' = Some (Prop ''faviconUrl'' True (TUnion TString TNull))
   \<and> accepts bookmarks_update_input
        (VObject [(''id'', VString ''b1''), (''faviconUrl'', VString ''https://example.com/favicon.ico'')])
   \<and> accepts bookmarks_update_input (VObject [(''id'', VString ''b1''), (''faviconUrl'', VNull)])
   \<and> accepts bookmarks_update_input (VObject [(''id'', VString ''b1'')])"
  using clearable_fields_three_states
    [of "''bookmarks''" bookmarks_update_input "''faviconUrl''" "''b1''" "''https://example.com/favicon.ico''"]
  by (simp add: input_of_simps)

section \<open>Creating a bookmark\<close>

lemma faviconUrl_declared_by_update_only:
  assumes "p \<in> set procedures" and "proc_input p = Some U"
    and "''faviconUrl'' \<in> set (prop_names U)"
  shows "proc_family p = ''bookmarks'' \<and> proc_name p = ''update''"
  using assms unfolding procedures_eq set_simps insert_iff empty_iff
  by (elim disjE) (simp_all add: input_prop_names)

lemma bookmarks_create_members:
  "member bookmarks_create_input ''id'' = Some (Prop ''id'' False TString)"
  "member bookmarks_create_input ''spaceId'' = Some (Prop ''spaceId'' False TString)"
  "member bookmarks_create_input ''groupId'' = Some (Prop ''groupId'' False TString)"
  "member bookmarks_create_input ''title'' = Some (Prop ''title'' False TString)"
  "member bookmarks_create_input ''url'' = Some (Prop ''url'' False TString)"
  "member bookmarks_create_input ''description'' =
     Some (Prop ''description'' True (TUnion TString TNull))"
  "member bookmarks_create_input ''order'' = Some (Prop ''order'' False TNumber)"
  "member bookmarks_create_input ''faviconUrl'' = None"
  "member bookmarks_update_input ''faviconUrl'' =
     Some (Prop ''faviconUrl'' True (TUnion TString TNull))"
  by (simp_all add: member_def bookmarks_create_input_def bookmarks_update_input_def)

lemma bookmarks_create_accepts:
  "accepts bookmarks_create_input (VObject
     [(''id'', VString i), (''spaceId'', VString sp), (''groupId'', VString g),
      (''title'', VString t), (''url'', VString u), (''order'', VNumber n)])"
  "accepts bookmarks_create_input (VObject
     [(''id'', VString i), (''spaceId'', VString sp), (''groupId'', VString g),
      (''title'', VString t), (''url'', VString u), (''description'', VString d),
      (''order'', VNumber n)])"
  "accepts bookmarks_create_input (VObject
     [(''id'', VString i), (''spaceId'', VString sp), (''groupId'', VString g),
      (''title'', VString t), (''url'', VString u), (''description'', VNull),
      (''order'', VNumber n)])"
  by (simp_all add: accepts_def bookmarks_create_input_def)

lemma bookmarks_update_accepts_faviconUrl:
  "accepts bookmarks_update_input (VObject [(''id'', VString i), (''faviconUrl'', VString u)])"
  "accepts bookmarks_update_input (VObject [(''id'', VString i), (''faviconUrl'', VNull)])"
  "accepts bookmarks_update_input (VObject [(''id'', VString i)])"
  by (simp_all add: accepts_def bookmarks_update_input_def)

lemma bookmarks_create_rejects_faviconUrl:
  assumes "''faviconUrl'' \<in> fst ` set kvs"
  shows "\<not> accepts bookmarks_create_input (VObject kvs)"
proof -
  have "props bookmarks_create_input \<noteq> []"
    by (simp add: bookmarks_create_input_def)
  moreover have "''faviconUrl'' \<notin> set (prop_names bookmarks_create_input)"
    by (simp add: input_prop_names)
  ultimately show ?thesis
    using assms accepts_names [of bookmarks_create_input kvs] by blast
qed

text \<open>
  Claim C1 as stated fails: the input type of \<open>bookmarks.create\<close> has no property
  \<open>faviconUrl\<close>, and a create literal that supplies one is rejected as having an
  excess property.
\<close>

theorem bookmarks_create_faviconUrl_counterexample:
  "input_of ''bookmarks'' ''create'' = Some bookmarks_create_input
   \<and> member bookmarks_create_input ''faviconUrl'' = None
   \<and> \<not> accepts bookmarks_create_input (VObject
        [(''id'', VString ''b1''), (''spaceId'', VString ''s1''), (''groupId'', VString ''g1''),
         (''title'', VString ''Example''), (''url'', VString ''https://example.com''),
         (''order'', VNumber 0),
         (''faviconUrl'', VString ''https://example.com/favicon.ico'')])"
  by (simp add: input_of_simps member_def accepts_def bookmarks_create_input_def)

text \<open>
  Claim C1, amended. The input of \<open>bookmarks.create\<close> declares \<open>title: string\<close>,
  \<open>url: string\<close> and \<open>description?: string | null\<close> together with the required
  parents \<open>spaceId: string\<close> and \<open>groupId: string\<close>, the caller-supplied
  \<open>id: string\<close> and \<open>order: number\<close>; a literal with exactly the required
  properties is accepted, and so is one that adds \<open>description\<close> as a string or as
  \<open>null\<close>. It does not declare \<open>faviconUrl\<close>: a literal carrying it is rejected,
  whatever else it holds. The only procedure whose input declares \<open>faviconUrl\<close> is
  \<open>bookmarks.update\<close>, as \<open>faviconUrl?: string | null\<close>: there a string, \<open>null\<close>
  and absence are all accepted.
\<close>

theorem bookmarks_create_declared_fields:
  "input_of ''bookmarks'' ''create'' = Some bookmarks_create_input
   \<and> required_names bookmarks_create_input =
        [''id'', ''spaceId'', ''groupId'', ''title'', ''url'', ''order'']
   \<and> optional_names bookmarks_create_input = [''description'']
   \<and> member bookmarks_create_input ''id'' = Some (Prop ''id'' False TString)
   \<and> member bookmarks_create_input ''spaceId'' = Some (Prop ''spaceId'' False TString)
   \<and> member bookmarks_create_input ''groupId'' = Some (Prop ''groupId'' False TString)
   \<and> member bookmarks_create_input ''title'' = Some (Prop ''title'' False TString)
   \<and> member bookmarks_create_input ''url'' = Some (Prop ''url'' False TString)
   \<and> member bookmarks_create_input ''description'' =
        Some (Prop ''description'' True (TUnion TString TNull))
   \<and> member bookmarks_create_input ''order'' = Some (Prop ''order'' False TNumber)
   \<and> member bookmarks_create_input ''faviconUrl'' = None
   \<and> accepts bookmarks_create_input (VObject
        [(''id'', VString i), (''spaceId'', VString sp), (''groupId'', VString g),
         (''title'', VString t), (''url'', VString u), (''order'', VNumber n)])
   \<and> accepts bookmarks_create_input (VObject
        [(''id'', VString i), (''spaceId'', VString sp), (''groupId'', VString g),
         (''title'', VString t), (''url'', VString u), (''description'', VString d),
         (''order'', VNumber n)])
   \<and> accepts bookmarks_create_input (VObject
        [(''id'', VString i), (''spaceId'', VString sp), (''groupId'', VString g),
         (''title'', VString t), (''url'', VString u), (''description'', VNull),
         (''order'', VNumber n)])
   \<and> (''faviconUrl'' \<in> fst ` set kvs \<longrightarrow> \<not> accepts bookmarks_create_input (VObject kvs))
   \<and> (p \<in> set procedures \<and> proc_input p = Some U \<and> ''faviconUrl'' \<in> set (prop_names U) \<longrightarrow>
        proc_family p = ''bookmarks'' \<and> proc_name p = ''update'')
   \<and> input_of ''bookmarks'' ''update'' = Some bookmarks_update_input
   \<and> member bookmarks_update_input ''faviconUrl'' =
        Some (Prop ''faviconUrl'' True (TUnion TString TNull))
   \<and> accepts bookmarks_update_input (VObject [(''id'', VString i), (''faviconUrl'', VString u)])
   \<and> accepts bookmarks_update_input (VObject [(''id'', VString i), (''faviconUrl'', VNull)])
   \<and> accepts bookmarks_update_input (VObject [(''id'', VString i)])"
proof -
  have "required_names bookmarks_create_input =
        [''id'', ''spaceId'', ''groupId'', ''title'', ''url'', ''order'']"
    "optional_names bookmarks_create_input = [''description'']"
    by (simp_all add: required_names_def optional_names_def bookmarks_create_input_def)
  moreover have "''faviconUrl'' \<in> fst ` set kvs \<longrightarrow>
      \<not> accepts bookmarks_create_input (VObject kvs)"
    using bookmarks_create_rejects_faviconUrl [of kvs] by blast
  moreover have "p \<in> set procedures \<and> proc_input p = Some U
      \<and> ''faviconUrl'' \<in> set (prop_names U) \<longrightarrow>
        proc_family p = ''bookmarks'' \<and> proc_name p = ''update''"
    using faviconUrl_declared_by_update_only [of p U] by blast
  ultimately show ?thesis
    by (simp add: input_of_simps bookmarks_create_members bookmarks_create_accepts
        bookmarks_update_accepts_faviconUrl)
qed

text \<open>
  The theorem at a concrete input: a literal that holds every required property with a
  value of its type, and so has the input type, is rejected for its \<open>faviconUrl\<close>
  alone; without that property it is accepted.
\<close>

theorem bookmarks_create_declared_fields_witness:
  "''faviconUrl'' \<in> fst ` set
        [(''id'', VString ''b7''), (''spaceId'', VString ''s2''), (''groupId'', VString ''g4''),
         (''title'', VString ''Docs''), (''url'', VString ''https://docs.example.org''),
         (''description'', VNull), (''order'', VNumber 2), (''faviconUrl'', VNull)]
   \<and> has_type bookmarks_create_input (VObject
        [(''id'', VString ''b7''), (''spaceId'', VString ''s2''), (''groupId'', VString ''g4''),
         (''title'', VString ''Docs''), (''url'', VString ''https://docs.example.org''),
         (''description'', VNull), (''order'', VNumber 2), (''faviconUrl'', VNull)])
   \<and> \<not> accepts bookmarks_create_input (VObject
        [(''id'', VString ''b7''), (''spaceId'', VString ''s2''), (''groupId'', VString ''g4''),
         (''title'', VString ''Docs''), (''url'', VString ''https://docs.example.org''),
         (''description'', VNull), (''order'', VNumber 2), (''faviconUrl'', VNull)])
   \<and> accepts bookmarks_create_input (VObject
        [(''id'', VString ''b7''), (''spaceId'', VString ''s2''), (''groupId'', VString ''g4''),
         (''title'', VString ''Docs''), (''url'', VString ''https://docs.example.org''),
         (''description'', VNull), (''order'', VNumber 2)])
   \<and> \<lparr>proc_family = ''bookmarks'', proc_name = ''update'', proc_call = ''mutate'',
        proc_input = Some bookmarks_update_input, proc_output = Bookmark\<rparr> \<in> set procedures
   \<and> ''faviconUrl'' \<in> set (prop_names bookmarks_update_input)"
proof -
  have "has_type bookmarks_create_input (VObject
        [(''id'', VString ''b7''), (''spaceId'', VString ''s2''), (''groupId'', VString ''g4''),
         (''title'', VString ''Docs''), (''url'', VString ''https://docs.example.org''),
         (''description'', VNull), (''order'', VNumber 2), (''faviconUrl'', VNull)])"
    by (simp add: bookmarks_create_input_def)
  then show ?thesis
    using bookmarks_create_declared_fields
      [where kvs = "[(''id'', VString ''b7''), (''spaceId'', VString ''s2''),
           (''groupId'', VString ''g4''), (''title'', VString ''Docs''),
           (''url'', VString ''https://docs.example.org''),
           (''description'', VNull), (''order'', VNumber 2), (''faviconUrl'', VNull)]"
         and i = "''b7''" and sp = "''s2''" and g = "''g4''" and t = "''Docs''"
         and u = "''https://docs.example.org''" and n = 2
         and p = "\<lparr>proc_family = ''bookmarks'', proc_name = ''update'', proc_call = ''mutate'',
           proc_input = Some bookmarks_update_input, proc_output = Bookmark\<rparr>"
         and U = bookmarks_update_input]
    by (simp add: procedures_eq input_prop_names)
qed

section \<open>Inputs that carry an order\<close>

text \<open>
  The declarations settle which inputs can carry ordering data, and nothing more. No
  input of an \<open>update\<close> declares \<open>order\<close>, so an update literal that carries it is
  rejected. Over all procedures, a property of type \<open>number\<close> is declared only under
  the name \<open>order\<close> and only by the input of a \<open>create\<close>, and \<open>orderedIds\<close> only by
  the input of a \<open>reorder\<close>, which every entity family has. What a procedure does to
  the stored order of an entity (an \<open>update\<close> that changes \<open>spaceId\<close> or
  \<open>groupId\<close>, a \<open>move\<close>) is left to the server behind the router; no declaration of
  \<open>router.ts\<close> decides it.
\<close>

lemma update_no_order:
  "''order'' \<notin> set (prop_names spaces_update_input)"
  "''order'' \<notin> set (prop_names groups_update_input)"
  "''order'' \<notin> set (prop_names bookmarks_update_input)"
  by (simp_all add: prop_names_def input_defs)

lemma input_number_names:
  "number_names spaces_create_input = [''order'']"
  "number_names spaces_update_input = []"
  "number_names spaces_delete_input = []"
  "number_names spaces_reorder_input = []"
  "number_names groups_create_input = [''order'']"
  "number_names groups_update_input = []"
  "number_names groups_delete_input = []"
  "number_names groups_reorder_input = []"
  "number_names bookmarks_create_input = [''order'']"
  "number_names bookmarks_update_input = []"
  "number_names bookmarks_delete_input = []"
  "number_names bookmarks_reorder_input = []"
  "number_names bookmarks_move_input = []"
  "number_names sync_ensureUser_input = []"
  by (simp_all add: number_names_def input_defs)

lemma procedure_declaring:
  assumes "p \<in> set procedures" and "proc_input p = Some U"
  shows "''order'' \<in> set (prop_names U) \<Longrightarrow> proc_name p = ''create''"
    and "''orderedIds'' \<in> set (prop_names U) \<Longrightarrow> proc_name p = ''reorder''"
    and "k \<in> set (number_names U) \<Longrightarrow> k = ''order'' \<and> proc_name p = ''create''"
  using assms unfolding procedures_eq set_simps insert_iff empty_iff
  by (elim disjE; simp add: input_prop_names input_number_names)+

lemma reorder_inputs:
  "\<exists>R. input_of ''spaces'' ''reorder'' = Some R
     \<and> member R ''orderedIds'' = Some (Prop ''orderedIds'' False (TArray TString))"
  "\<exists>R. input_of ''groups'' ''reorder'' = Some R
     \<and> member R ''orderedIds'' = Some (Prop ''orderedIds'' False (TArray TString))"
  "\<exists>R. input_of ''bookmarks'' ''reorder'' = Some R
     \<and> member R ''orderedIds'' = Some (Prop ''orderedIds'' False (TArray TString))"
  by (simp_all add: input_of_def procedure_at_def procedures_eq member_def input_defs)

lemma order_declaring_inputs:
  "(input_of f ''update'' = Some T \<longrightarrow>
      ''order'' \<notin> set (prop_names T)
      \<and> (''order'' \<in> fst ` set kvs \<longrightarrow> \<not> accepts T (VObject kvs)))
   \<and> (p \<in> set procedures \<and> proc_input p = Some U \<and> ''order'' \<in> set (prop_names U) \<longrightarrow>
        proc_name p = ''create'')
   \<and> (p \<in> set procedures \<and> proc_input p = Some U \<and> k \<in> set (number_names U) \<longrightarrow>
        k = ''order'' \<and> proc_name p = ''create'')
   \<and> (p \<in> set procedures \<and> proc_input p = Some U \<and> ''orderedIds'' \<in> set (prop_names U) \<longrightarrow>
        proc_name p = ''reorder'')
   \<and> (g \<in> {''spaces'', ''groups'', ''bookmarks''} \<longrightarrow>
        (\<exists>R. input_of g ''reorder'' = Some R
           \<and> member R ''orderedIds'' = Some (Prop ''orderedIds'' False (TArray TString))))"
proof -
  have "''order'' \<notin> set (prop_names T)
      \<and> (''order'' \<in> fst ` set kvs \<longrightarrow> \<not> accepts T (VObject kvs))"
    if "input_of f ''update'' = Some T"
  proof -
    from update_input_cases [OF that] have "''order'' \<notin> set (prop_names T)"
      by (auto simp: update_no_order)
    moreover from update_input_cases [OF that] have "props T \<noteq> []"
      by (auto simp: input_defs)
    ultimately show ?thesis
      using accepts_names [of T kvs] by blast
  qed
  moreover have "g \<in> {''spaces'', ''groups'', ''bookmarks''} \<longrightarrow>
        (\<exists>R. input_of g ''reorder'' = Some R
           \<and> member R ''orderedIds'' = Some (Prop ''orderedIds'' False (TArray TString)))"
    using reorder_inputs by auto
  ultimately show ?thesis
    using procedure_declaring(1) [of p U] procedure_declaring(2) [of p U]
      procedure_declaring(3) [of p U k] by blast
qed

section \<open>Properties a type does not declare\<close>

text \<open>
  Assignability alone does not look at a property the type does not declare: only the
  check of a literal rejects it.
\<close>

lemma has_prop_undeclared:
  "pname q \<noteq> k \<Longrightarrow> has_prop q ((k, x) # kvs) = has_prop q kvs"
  by (cases q) simp

lemma has_type_undeclared:
  "k \<notin> set (prop_names (TObject ps)) \<Longrightarrow>
     has_type (TObject ps) (VObject ((k, x) # kvs)) = has_type (TObject ps) (VObject kvs)"
  by (induction ps) (auto simp: prop_names_def has_prop_undeclared)

end
